theory Spec2Isabelle
  imports Main "HOL-Library.Sublist"
begin

section \<open>Python strings\<close>

text \<open>
  A Python \<^verbatim>\<open>str\<close> is a sequence of Unicode code points, so a string is a list of
  naturals here (a \<^typ>\<open>char\<close> holds one byte only). \<open>asc\<close> embeds a 7-bit literal.
\<close>

type_synonym ustr = "nat list"

definition asc :: "string \<Rightarrow> ustr" where
  "asc s = map of_char s"

definition is_ascii :: "ustr \<Rightarrow> bool" where
  "is_ascii s = list_all (\<lambda>c. c < 128) s"

text \<open>
  The Unicode tables of the interpreter are not part of the repository. On 7-bit input
  every library function used here is fixed by the standard and written out below; only
  what the library does above code point 127 is taken from a \<open>unicode_db\<close>.
\<close>

record unicode_db =
  uni_nfd :: "ustr \<Rightarrow> ustr"
  uni_Mn :: "nat \<Rightarrow> bool"
  uni_lower :: "ustr \<Rightarrow> nat \<Rightarrow> ustr"
  uni_word :: "nat \<Rightarrow> bool"
  uni_space :: "nat \<Rightarrow> bool"

definition ascii_upper :: "nat \<Rightarrow> bool" where
  "ascii_upper c = (65 \<le> c \<and> c \<le> 90)"

definition ascii_lower_alnum :: "nat \<Rightarrow> bool" where
  "ascii_lower_alnum c = ((97 \<le> c \<and> c \<le> 122) \<or> (48 \<le> c \<and> c \<le> 57))"

definition ascii_word :: "nat \<Rightarrow> bool" where
  "ascii_word c = (ascii_lower_alnum c \<or> ascii_upper c \<or> c = 95)"

definition ascii_space :: "nat \<Rightarrow> bool" where
  "ascii_space c = ((9 \<le> c \<and> c \<le> 13) \<or> (28 \<le> c \<and> c \<le> 31) \<or> c = 32)"

text \<open>\<^verbatim>\<open>\w\<close> and \<^verbatim>\<open>\s\<close> of a \<^verbatim>\<open>str\<close> pattern, and \<^verbatim>\<open>str.isspace\<close>.\<close>

definition is_word :: "unicode_db \<Rightarrow> nat \<Rightarrow> bool" where
  "is_word db c = (if c < 128 then ascii_word c else uni_word db c)"

definition is_space :: "unicode_db \<Rightarrow> nat \<Rightarrow> bool" where
  "is_space db c = (if c < 128 then ascii_space c else uni_space db c)"

text \<open>\<^verbatim>\<open>unicodedata.category(c) == 'Mn'\<close>: no 7-bit character is a combining mark.\<close>

definition is_Mn :: "unicode_db \<Rightarrow> nat \<Rightarrow> bool" where
  "is_Mn db c = (128 \<le> c \<and> uni_Mn db c)"

text \<open>\<^verbatim>\<open>unicodedata.normalize('NFD', s)\<close>: a 7-bit string is its own decomposition.\<close>

definition nfd :: "unicode_db \<Rightarrow> ustr \<Rightarrow> ustr" where
  "nfd db s = (if is_ascii s then s else uni_nfd db s)"

text \<open>
  \<^verbatim>\<open>str.lower()\<close> maps character by character, looking at the context of a character
  (final sigma), and may map one character to several.
\<close>

definition lower_at :: "unicode_db \<Rightarrow> ustr \<Rightarrow> nat \<Rightarrow> ustr" where
  "lower_at db s i =
     (let c = s ! i in
      if c < 128 then [if ascii_upper c then c + 32 else c] else uni_lower db s i)"

definition lower :: "unicode_db \<Rightarrow> ustr \<Rightarrow> ustr" where
  "lower db s = concat (map (lower_at db s) [0..<length s])"

text \<open>\<^verbatim>\<open>s.replace(u, r)\<close> for a pattern \<open>u\<close> of one character.\<close>

definition str_replace :: "nat \<Rightarrow> ustr \<Rightarrow> ustr \<Rightarrow> ustr" where
  "str_replace u r s = concat (map (\<lambda>c. if c = u then r else [c]) s)"

text \<open>\<^verbatim>\<open>s.strip(chars)\<close> and \<^verbatim>\<open>s.strip()\<close>.\<close>

definition strip_where :: "(nat \<Rightarrow> bool) \<Rightarrow> ustr \<Rightarrow> ustr" where
  "strip_where p s = rev (dropWhile p (rev (dropWhile p s)))"

definition py_strip :: "unicode_db \<Rightarrow> ustr \<Rightarrow> ustr" where
  "py_strip db s = strip_where (is_space db) s"

text \<open>\<^verbatim>\<open>s.split(sep)\<close> for a separator of one character, and \<^verbatim>\<open>sep.join(xs)\<close>.\<close>

fun py_split :: "nat \<Rightarrow> ustr \<Rightarrow> ustr list" where
  "py_split sep [] = [[]]"
| "py_split sep (c # cs) =
     (if c = sep then [] # py_split sep cs
      else (case py_split sep cs of
              [] \<Rightarrow> [[c]]
            | p # ps \<Rightarrow> (c # p) # ps))"

fun py_join :: "ustr \<Rightarrow> ustr list \<Rightarrow> ustr" where
  "py_join sep [] = []"
| "py_join sep [x] = x"
| "py_join sep (x # y # ys) = x @ sep @ py_join sep (y # ys)"

text \<open>\<^verbatim>\<open>s.encode('ascii', errors='replace').decode('ascii')\<close>.\<close>

definition encode_ascii_replace :: "ustr \<Rightarrow> ustr" where
  "encode_ascii_replace s = map (\<lambda>c. if c < 128 then c else 63) s"

text \<open>
  \<^verbatim>\<open>re.sub(p, '', s)\<close> for a pattern \<open>p\<close> of one character class is a filter;
  \<^verbatim>\<open>re.sub(p+, r, s)\<close> scans left to right and replaces each maximal run of matching
  characters by \<open>r\<close>. The flag of \<open>sub_runs_from\<close> says whether the scan is inside a run.
\<close>

definition re_sub_delete :: "(nat \<Rightarrow> bool) \<Rightarrow> ustr \<Rightarrow> ustr" where
  "re_sub_delete p s = filter (\<lambda>c. \<not> p c) s"

fun sub_runs_from :: "(nat \<Rightarrow> bool) \<Rightarrow> ustr \<Rightarrow> bool \<Rightarrow> ustr \<Rightarrow> ustr" where
  "sub_runs_from p r in_run [] = []"
| "sub_runs_from p r in_run (c # cs) =
     (if p c then (if in_run then [] else r) @ sub_runs_from p r True cs
      else c # sub_runs_from p r False cs)"

definition re_sub_runs :: "(nat \<Rightarrow> bool) \<Rightarrow> ustr \<Rightarrow> ustr \<Rightarrow> ustr" where
  "re_sub_runs p r s = sub_runs_from p r False s"

text \<open>Truth value of an optional string: \<^verbatim>\<open>None\<close> and \<^verbatim>\<open>''\<close> are both false.\<close>

fun opt_str :: "ustr option \<Rightarrow> ustr" where
  "opt_str None = []"
| "opt_str (Some s) = s"

definition truthy :: "ustr option \<Rightarrow> bool" where
  "truthy x = (opt_str x \<noteq> [])"

section \<open>models.py\<close>

text \<open>
  \<open>'d\<close> is \<^verbatim>\<open>datetime\<close>; \<open>url\<close> holds \<^verbatim>\<open>str(article.url)\<close>.
\<close>

record 'd article =
  title :: ustr
  url :: ustr
  author :: "ustr option"
  published :: "'d option"
  summary :: "ustr option"
  content :: "ustr option"
  categories :: "ustr list"
  slug :: "ustr option"

definition hyphen :: nat where
  "hyphen = 45"

definition clean_title :: "unicode_db \<Rightarrow> ustr \<Rightarrow> ustr" where
  "clean_title db v = str_replace 13 [32] (str_replace 10 [32] (py_strip db v))"

definition generate_slug :: "unicode_db \<Rightarrow> ('d, 'z) article_scheme \<Rightarrow> ustr" where
  "generate_slug db a =
     (if truthy (slug a) then opt_str (slug a)
      else
        let s1 = lower db (title a);
            s2 = re_sub_delete (\<lambda>c. \<not> (is_word db c \<or> is_space db c \<or> c = hyphen)) s1;
            s3 = re_sub_runs (\<lambda>c. c = hyphen \<or> is_space db c) [hyphen] s2;
            s4 = strip_where (\<lambda>c. c = hyphen) s3
        in take 100 s4)"

section \<open>pathlib\<close>

text \<open>
  A pure POSIX path: whether it is anchored at the root, and its components. Empty
  components and \<^verbatim>\<open>.\<close> are dropped when a string is parsed; \<^verbatim>\<open>..\<close> is kept.
  A leading \<^verbatim>\<open>//\<close> is treated like \<^verbatim>\<open>/\<close>.
\<close>

datatype path = Path (is_absolute: bool) (parts: "ustr list")

definition PurePath :: "ustr \<Rightarrow> path" where
  "PurePath s =
     Path (case s of [] \<Rightarrow> False | c # _ \<Rightarrow> c = 47)
          (filter (\<lambda>p. p \<noteq> [] \<and> p \<noteq> [46]) (py_split 47 s))"

text \<open>\<^verbatim>\<open>p / s\<close>: an absolute right operand replaces the left one.\<close>

definition truediv :: "path \<Rightarrow> ustr \<Rightarrow> path" where
  "truediv p s =
     (let q = PurePath s in
      if is_absolute q then q else Path (is_absolute p) (parts p @ parts q))"

datatype error = OSError | ValueError | HTTPError | ParseError | ValidationError

definition relative_to :: "path \<Rightarrow> path \<Rightarrow> error + path" where
  "relative_to p base =
     (if is_absolute p = is_absolute base \<and> prefix (parts base) (parts p)
      then Inr (Path False (drop (length (parts base)) (parts p)))
      else Inl ValueError)"

definition get_file_path :: "unicode_db \<Rightarrow> ('d, 'z) article_scheme \<Rightarrow> path \<Rightarrow> path" where
  "get_file_path db a base_dir = truediv base_dir (generate_slug db a @ asc ''.md'')"

section \<open>markdown_writer.py: rendering\<close>

definition replacements :: "(nat \<times> ustr) list" where
  "replacements =
     [(8211, asc ''-''), (8212, asc ''--''), (8216, [39]), (8217, [39]),
      (8220, [34]), (8221, [34]), (8230, asc ''...''), (160, asc '' ''),
      (8226, asc ''*''), (171, asc ''<<''), (187, asc ''>>'')]"

definition normalize_text :: "unicode_db \<Rightarrow> ustr \<Rightarrow> ustr" where
  "normalize_text db text =
     (if text = [] then []
      else
        let normalized = nfd db text;
            ascii_text = filter (\<lambda>c. \<not> is_Mn db c) normalized;
            ascii_text = foldl (\<lambda>s (u, r). str_replace u r s) ascii_text replacements
        in encode_ascii_replace ascii_text)"

definition escape_yaml :: "ustr \<Rightarrow> ustr" where
  "escape_yaml text =
     (if text = [] then []
      else str_replace 13 [32] (str_replace 10 [32] (str_replace 34 [92, 34] text)))"

definition clean_content :: "unicode_db \<Rightarrow> ustr \<Rightarrow> ustr" where
  "clean_content db text =
     (if text = [] then []
      else py_join [10, 10]
             (filter (\<lambda>line. line \<noteq> []) (map (py_strip db) (py_split 10 text))))"

text \<open>
  What the run depends on besides its arguments: the Unicode tables, the three
  \<^verbatim>\<open>datetime\<close> formats used, the clock, and how the operating system answers each
  file operation. \<open>IoRefused\<close>: creating the directory or opening the file raises and
  the file is left as it was. \<open>IoTorn\<close>: the file is opened (and so truncated) and
  writing it raises.
\<close>

datatype io_outcome = IoOk | IoRefused | IoTorn

record 'd sys =
  unicode :: unicode_db
  isoformat :: "'d \<Rightarrow> ustr"
  strftime_ymd :: "'d \<Rightarrow> ustr"
  strftime_long :: "'d \<Rightarrow> ustr"
  now_iso :: ustr
  mkdir_ok :: "path \<Rightarrow> bool"
  doc_io :: "path \<Rightarrow> io_outcome"
  meta_io :: "path \<Rightarrow> io_outcome"

definition placeholder :: ustr where
  "placeholder = asc ''*Full article content not available. Please visit the source URL above.*''"

text \<open>The list \<^verbatim>\<open>lines\<close> that \<^verbatim>\<open>_generate_markdown\<close> builds.\<close>

definition markdown_lines :: "'d sys \<Rightarrow> 'd article \<Rightarrow> ustr list" where
  "markdown_lines sys a =
     (let norm = normalize_text (unicode sys) in
      [asc ''---'',
       asc ''title: '' @ [34] @ escape_yaml (norm (title a)) @ [34],
       asc ''url: '' @ url a]
      @ (if truthy (author a)
         then [asc ''author: '' @ [34] @ escape_yaml (norm (opt_str (author a))) @ [34]]
         else [])
      @ (case published a of
           None \<Rightarrow> []
         | Some d \<Rightarrow> [asc ''published: '' @ isoformat sys d, asc ''date: '' @ strftime_ymd sys d])
      @ (if categories a \<noteq> []
         then asc ''categories:''
              # map (\<lambda>c. asc ''  - '' @ [34] @ escape_yaml (norm c) @ [34]) (categories a)
         else [])
      @ [asc ''slug: '' @ generate_slug (unicode sys) a, asc ''---'', []]
      @ [asc ''# '' @ norm (title a), []]
      @ (if truthy (author a) \<or> published a \<noteq> None
         then [py_join (asc '' | '')
                 ((if truthy (author a) then [asc ''**By:** '' @ norm (opt_str (author a))] else [])
                  @ (case published a of
                       None \<Rightarrow> []
                     | Some d \<Rightarrow> [asc ''**Published:** '' @ strftime_long sys d])),
               []]
         else [])
      @ (if categories a \<noteq> []
         then [asc ''**Categories:** ''
               @ py_join (asc '' '') (map (\<lambda>c. [96] @ norm c @ [96]) (categories a)),
               []]
         else [])
      @ [asc ''**Source:** ['' @ url a @ asc '']('' @ url a @ asc '')'', [], asc ''---'', []]
      @ (if truthy (summary a)
         then [asc ''## Summary'', [], norm (opt_str (summary a)), []]
         else [])
      @ (if truthy (content a)
         then [asc ''## Article Content'', [],
               clean_content (unicode sys) (norm (opt_str (content a)))]
         else [placeholder]))"

definition generate_markdown :: "'d sys \<Rightarrow> 'd article \<Rightarrow> ustr" where
  "generate_markdown sys a = py_join [10] (markdown_lines sys a)"

section \<open>markdown_writer.py: the files and the ledger\<close>

text \<open>
  The disk holds the documents and the ledger \<^verbatim>\<open>.metadata.json\<close>. A document is
  \<open>Torn\<close> after a write that failed half way; a ledger file that does not parse is
  \<open>Unreadable\<close>. The ledger's list of urls is built from a set, so its order is not
  fixed by the program: it is kept as a set.
\<close>

datatype doc_file = Torn | Doc ustr

record ledger =
  last_updated :: ustr
  processed_urls :: "ustr set"

datatype ledger_file = Unreadable | Ledger ledger

record disk =
  docs :: "path \<rightharpoonup> doc_file"
  meta :: "path \<rightharpoonup> ledger_file"

record writer =
  output_dir :: path
  metadata_file :: path
  existing_urls :: "ustr set"

definition load_existing_urls :: "disk \<Rightarrow> writer \<Rightarrow> writer" where
  "load_existing_urls d w =
     w\<lparr>existing_urls :=
         (case meta d (metadata_file w) of
            None \<Rightarrow> {}
          | Some Unreadable \<Rightarrow> {}
          | Some (Ledger l) \<Rightarrow> processed_urls l)\<rparr>"

text \<open>
  \<^verbatim>\<open>MarkdownWriter.__init__\<close>: creating the output directory may raise, and nothing
  catches it there.
\<close>

definition MarkdownWriter :: "'d sys \<Rightarrow> disk \<Rightarrow> path \<Rightarrow> error + writer" where
  "MarkdownWriter sys d dir =
     (if mkdir_ok sys dir
      then Inr (load_existing_urls d
                  \<lparr>output_dir = dir, metadata_file = truediv dir (asc ''.metadata.json''),
                   existing_urls = {}\<rparr>)
      else Inl OSError)"

definition save_metadata :: "'d sys \<Rightarrow> writer \<Rightarrow> ustr list \<Rightarrow> disk \<Rightarrow> disk" where
  "save_metadata sys w new d =
     (case meta_io sys (metadata_file w) of
        IoOk \<Rightarrow>
          d\<lparr>meta := (meta d)(metadata_file w \<mapsto>
                Ledger \<lparr>last_updated = now_iso sys,
                        processed_urls = existing_urls w \<union> set new\<rparr>)\<rparr>
      | IoRefused \<Rightarrow> d
      | IoTorn \<Rightarrow> d\<lparr>meta := (meta d)(metadata_file w \<mapsto> Unreadable)\<rparr>)"

definition is_article_processed :: "writer \<Rightarrow> 'd article \<Rightarrow> bool" where
  "is_article_processed w a = (url a \<in> existing_urls w)"

text \<open>
  \<^verbatim>\<open>write_article\<close> returns the path or raises, and changes the disk either way. The
  file is opened with \<^verbatim>\<open>encoding='ascii', errors='replace'\<close>. The line printed after
  the write calls \<^verbatim>\<open>file_path.relative_to(self.output_dir)\<close>, which raises for a path
  outside the output directory, after the file is on disk.
\<close>

definition write_article :: "'d sys \<Rightarrow> writer \<Rightarrow> 'd article \<Rightarrow> disk \<Rightarrow> (error + path) \<times> disk" where
  "write_article sys w a d =
     (let file_path = get_file_path (unicode sys) a (output_dir w);
          markdown_content = generate_markdown sys a
      in case doc_io sys file_path of
           IoRefused \<Rightarrow> (Inl OSError, d)
         | IoTorn \<Rightarrow> (Inl OSError, d\<lparr>docs := (docs d)(file_path \<mapsto> Torn)\<rparr>)
         | IoOk \<Rightarrow>
             (let d' = d\<lparr>docs := (docs d)(file_path \<mapsto> Doc (encode_ascii_replace markdown_content))\<rparr>
              in case relative_to file_path (output_dir w) of
                   Inl e \<Rightarrow> (Inl e, d')
                 | Inr _ \<Rightarrow> (Inr file_path, d')))"

text \<open>
  The loop of \<^verbatim>\<open>write_articles\<close> over its three local variables and the disk. The
  writer itself is only read: nothing in the loop assigns \<^verbatim>\<open>self.existing_urls\<close>.
\<close>

record batch =
  written_files :: "path list"
  new_urls :: "ustr list"
  skipped_count :: nat
  on_disk :: disk

fun write_loop :: "'d sys \<Rightarrow> writer \<Rightarrow> 'd article list \<Rightarrow> batch \<Rightarrow> batch" where
  "write_loop sys w [] b = b"
| "write_loop sys w (a # rest) b =
     (if is_article_processed w a
      then write_loop sys w rest (b\<lparr>skipped_count := skipped_count b + 1\<rparr>)
      else (case write_article sys w a (on_disk b) of
              (Inr file_path, d) \<Rightarrow>
                write_loop sys w rest
                  (b\<lparr>written_files := written_files b @ [file_path],
                     new_urls := new_urls b @ [url a],
                     on_disk := d\<rparr>)
            | (Inl e, d) \<Rightarrow> write_loop sys w rest (b\<lparr>on_disk := d\<rparr>)))"

text \<open>
  \<^verbatim>\<open>write_articles\<close> returns \<open>written_files\<close>; the other fields are the counts it
  prints and the disk it leaves.
\<close>

definition write_articles :: "'d sys \<Rightarrow> writer \<Rightarrow> 'd article list \<Rightarrow> disk \<Rightarrow> batch" where
  "write_articles sys w articles d =
     (let b = write_loop sys w articles
                \<lparr>written_files = [], new_urls = [], skipped_count = 0, on_disk = d\<rparr>
      in if new_urls b \<noteq> []
         then b\<lparr>on_disk := save_metadata sys w (new_urls b) (on_disk b)\<rparr>
         else b)"

section \<open>fetcher.py\<close>

text \<open>
  \<^verbatim>\<open>FetchConfig\<close>, without the user agent and the length of the rate-limit delay, which
  decide nothing below.
\<close>

record fetch_config =
  rss_url :: ustr
  config_output_dir :: path
  max_articles :: int
  fetch_full_content :: bool
  rag_app_name :: ustr
  syftbox_config_path :: "path option"

text \<open>
  A feed entry as \<^verbatim>\<open>feedparser\<close> gives it: an attribute may be missing. The network
  and the parsing libraries are \<open>net\<close>: \<open>date_parse\<close> and \<open>http_url\<close> give \<open>None\<close> where
  \<^verbatim>\<open>dateutil\<close> and the \<^verbatim>\<open>HttpUrl\<close> validation raise.
\<close>

record 'd entry =
  entry_title :: "ustr option"
  entry_link :: "ustr option"
  entry_published_parsed :: "'d option"
  entry_published :: "ustr option"
  entry_tags :: "ustr list option"
  entry_author :: "ustr option"
  entry_summary :: "ustr option"

record 'd feed =
  bozo :: bool
  entries :: "'d entry list"

record response =
  status_code :: int
  response_text :: ustr

record 'd news_article =
  news_text :: ustr
  news_authors :: "ustr list"
  news_publish_date :: "'d option"

record 'd net =
  feedparser_parse :: "ustr \<Rightarrow> error + 'd feed"
  date_parse :: "ustr \<Rightarrow> 'd option"
  soup_text :: "ustr \<Rightarrow> ustr"
  http_url :: "ustr \<Rightarrow> ustr option"
  session_get :: "ustr \<Rightarrow> error + response"
  newspaper_parse :: "ustr \<Rightarrow> ustr \<Rightarrow> error + 'd news_article"

text \<open>What a call does to the world outside the disk, in order.\<close>

datatype effect =
  FeedFetch ustr
| PageFetch ustr
| RateLimitSleep
| PollSleep
| WatchedFoldersGet ustr
| AddFolderPost ustr ustr

text \<open>\<^verbatim>\<open>xs[:n]\<close>: a negative \<open>n\<close> counts from the end.\<close>

definition slice_to :: "int \<Rightarrow> 'a list \<Rightarrow> 'a list" where
  "slice_to n xs = (if 0 \<le> n then take (nat n) xs else take (nat (int (length xs) + n)) xs)"

definition parse_rss_entry :: "unicode_db \<Rightarrow> 'd net \<Rightarrow> 'd entry \<Rightarrow> 'd article option" where
  "parse_rss_entry db net e =
     (let published' =
            (case entry_published_parsed e of
               Some d \<Rightarrow> Some d
             | None \<Rightarrow> (case entry_published e of None \<Rightarrow> None | Some s \<Rightarrow> date_parse net s));
          categories' = (case entry_tags e of None \<Rightarrow> [] | Some tags \<Rightarrow> tags);
          author' = entry_author e;
          summary' =
            (if truthy (entry_summary e)
             then Some (py_strip db (soup_text net (opt_str (entry_summary e))))
             else entry_summary e)
      in case entry_title e of
           None \<Rightarrow> None
         | Some t \<Rightarrow>
             (case entry_link e of
                None \<Rightarrow> None
              | Some l \<Rightarrow>
                  (case http_url net l of
                     None \<Rightarrow> None
                   | Some u \<Rightarrow>
                       Some \<lparr>title = clean_title db t, url = u, author = author',
                             published = published', summary = summary', content = None,
                             categories = categories', slug = None\<rparr>)))"

definition fetch_rss_feed ::
  "fetch_config \<Rightarrow> unicode_db \<Rightarrow> 'd net \<Rightarrow> 'd article list \<times> effect list" where
  "fetch_rss_feed cfg db net =
     (case feedparser_parse net (rss_url cfg) of
        Inl e \<Rightarrow> ([], [FeedFetch (rss_url cfg)])
      | Inr feed \<Rightarrow>
          (List.map_filter (parse_rss_entry db net) (slice_to (max_articles cfg) (entries feed)),
           [FeedFetch (rss_url cfg)]))"

text \<open>\<^verbatim>\<open>response.raise_for_status()\<close> raises for a status from 400 to 599.\<close>

definition raise_for_status :: "response \<Rightarrow> error + unit" where
  "raise_for_status r =
     (if 400 \<le> status_code r \<and> status_code r < 600 then Inl HTTPError else Inr ())"

definition fetch_article_content ::
  "fetch_config \<Rightarrow> 'd net \<Rightarrow> 'd article \<Rightarrow> 'd article \<times> effect list" where
  "fetch_article_content cfg net a =
     (if \<not> fetch_full_content cfg then (a, [])
      else
        (case session_get net (url a) of
           Inl e \<Rightarrow> a
         | Inr r \<Rightarrow>
             (case raise_for_status r of
                Inl e \<Rightarrow> a
              | Inr _ \<Rightarrow>
                  (case newspaper_parse net (url a) (response_text r) of
                     Inl e \<Rightarrow> a
                   | Inr n \<Rightarrow>
                       (let a1 = (if news_text n \<noteq> [] then a\<lparr>content := Some (news_text n)\<rparr> else a);
                            a2 = (if \<not> truthy (author a1) \<and> news_authors n \<noteq> []
                                  then a1\<lparr>author := Some (py_join (asc '', '') (news_authors n))\<rparr>
                                  else a1);
                            a3 = (if published a2 = None \<and> news_publish_date n \<noteq> None
                                  then a2\<lparr>published := news_publish_date n\<rparr>
                                  else a2)
                        in a3))),
         [PageFetch (url a)]))"

fun fetch_each :: "fetch_config \<Rightarrow> 'd net \<Rightarrow> 'd article list \<Rightarrow> 'd article list \<times> effect list" where
  "fetch_each cfg net [] = ([], [])"
| "fetch_each cfg net (a # rest) =
     (let (a', fx) = fetch_article_content cfg net a;
          (rest', fx') = fetch_each cfg net rest
      in (a' # rest', fx @ (if rest \<noteq> [] then [RateLimitSleep] else []) @ fx'))"

definition fetch_articles ::
  "fetch_config \<Rightarrow> unicode_db \<Rightarrow> 'd net \<Rightarrow> 'd article list \<times> effect list" where
  "fetch_articles cfg db net =
     (let (articles, fx) = fetch_rss_feed cfg db net
      in if articles = [] then ([], fx)
         else (let (articles', fx') = fetch_each cfg net articles in (articles', fx @ fx')))"

section \<open>rag_service.py\<close>

text \<open>
  What the detector reads: the files it tests, the marker files at each second
  (\<open>None\<close>: absent; otherwise what \<^verbatim>\<open>read_text()\<close> gives or raises), the SyftBox client
  (\<open>client_load\<close> gives the workspace's data directory), and the indexing service's two
  endpoints. The clock counts whole seconds: \<^verbatim>\<open>time.sleep(1)\<close> advances it by one, and
  nothing else takes time.
\<close>

record detector =
  config_path :: path
  rag_service_url :: "ustr option"
  rag_service_port :: "ustr option"
  rag_service_pid :: "ustr option"

record rag_env =
  home_config :: path
  path_exists :: "path \<Rightarrow> bool"
  client_load :: "path \<Rightarrow> error + path"
  marker :: "int \<Rightarrow> path \<Rightarrow> (error + ustr) option"
  time_now :: int
  absolute :: "path \<Rightarrow> ustr"
  get_watched_folders :: "ustr \<Rightarrow> error + int \<times> ustr list option"
  post_add_folder :: "ustr \<Rightarrow> ustr \<Rightarrow> error + int"

definition RAGServiceDetector :: "rag_env \<Rightarrow> path option \<Rightarrow> detector" where
  "RAGServiceDetector env cp =
     \<lparr>config_path = (case cp of None \<Rightarrow> home_config env | Some p \<Rightarrow> p),
      rag_service_url = None, rag_service_port = None, rag_service_pid = None\<rparr>"

fun read_text :: "(error + ustr) option \<Rightarrow> error + ustr" where
  "read_text None = Inl OSError"
| "read_text (Some r) = r"

function wait_for_service ::
  "rag_env \<Rightarrow> unicode_db \<Rightarrow> path \<Rightarrow> path \<Rightarrow> int \<Rightarrow> int \<Rightarrow> int \<Rightarrow> detector \<Rightarrow> effect list
     \<Rightarrow> bool \<times> detector \<times> effect list" where
  "wait_for_service env db app_port_file app_pid_file start_time max_wait_time now d fx =
     (if now - start_time < max_wait_time
      then
        (if marker env now app_port_file \<noteq> None \<and> marker env now app_pid_file \<noteq> None
         then
           (case read_text (marker env now app_port_file) of
              Inl e \<Rightarrow> (False, d, fx)
            | Inr port \<Rightarrow>
                (let d1 = d\<lparr>rag_service_port := Some (py_strip db port)\<rparr>
                 in case read_text (marker env now app_pid_file) of
                      Inl e \<Rightarrow> (False, d1, fx)
                    | Inr pid \<Rightarrow>
                        (True,
                         d1\<lparr>rag_service_pid := Some (py_strip db pid),
                            rag_service_url := Some (asc ''http://localhost:'' @ py_strip db port)\<rparr>,
                         fx)))
         else wait_for_service env db app_port_file app_pid_file start_time max_wait_time
                (now + 1) d (fx @ [PollSleep]))
      else (False, d, fx))"
  by pat_completeness auto
termination
  by (relation "measure (\<lambda>(env, db, pf, qf, start_time, max_wait_time, now, d, fx).
                   nat (start_time + max_wait_time - now))") auto

declare wait_for_service.simps [simp del]

definition detect_rag_service ::
  "rag_env \<Rightarrow> unicode_db \<Rightarrow> detector \<Rightarrow> ustr \<Rightarrow> int \<Rightarrow> bool \<times> detector \<times> effect list" where
  "detect_rag_service env db d app_name max_wait_time =
     (if \<not> path_exists env (config_path d) then (False, d, [])
      else
        (case client_load env (config_path d) of
           Inl e \<Rightarrow> (False, d, [])
         | Inr data_dir \<Rightarrow>
             (let app_folder = truediv (truediv data_dir (asc ''apps'')) app_name;
                  app_pid_file = truediv (truediv app_folder (asc ''data'')) (asc ''app.pid'');
                  app_port_file = truediv (truediv app_folder (asc ''data'')) (asc ''app.port'')
              in if \<not> path_exists env app_folder then (False, d, [])
                 else wait_for_service env db app_port_file app_pid_file
                        (time_now env) max_wait_time (time_now env) d [])))"

section \<open>rag_integration.py\<close>

record rag_integration =
  the_detector :: detector
  service_url :: "ustr option"
  is_connected :: bool
  folder_registered :: bool

definition RAGIntegration :: "fetch_config \<Rightarrow> rag_env \<Rightarrow> rag_integration" where
  "RAGIntegration cfg env =
     \<lparr>the_detector = RAGServiceDetector env (syftbox_config_path cfg),
      service_url = None, is_connected = False, folder_registered = False\<rparr>"

definition is_folder_registered :: "rag_env \<Rightarrow> rag_integration \<Rightarrow> ustr \<Rightarrow> bool \<times> effect list" where
  "is_folder_registered env r folder_path =
     (if \<not> is_connected r \<or> \<not> truthy (service_url r) then (False, [])
      else
        (let req = opt_str (service_url r) @ asc ''/api/watched-folders''
         in (case get_watched_folders env req of
               Inl e \<Rightarrow> False
             | Inr (code, folders) \<Rightarrow>
                 (if code = 200
                  then (case folders of None \<Rightarrow> False | Some fs \<Rightarrow> folder_path \<in> set fs)
                  else False),
             [WatchedFoldersGet req])))"

definition register_articles_folder ::
  "fetch_config \<Rightarrow> rag_env \<Rightarrow> rag_integration \<Rightarrow> bool \<times> rag_integration \<times> effect list" where
  "register_articles_folder cfg env r =
     (if \<not> is_connected r \<or> \<not> truthy (service_url r) then (False, r, [])
      else
        (let articles_path = absolute env (config_output_dir cfg);
             (registered, fx) = is_folder_registered env r articles_path
         in if registered then (True, r\<lparr>folder_registered := True\<rparr>, fx)
            else
              (let req = opt_str (service_url r) @ asc ''/api/add-folder''
               in case post_add_folder env req articles_path of
                    Inl e \<Rightarrow> (False, r, fx @ [AddFolderPost req articles_path])
                  | Inr code \<Rightarrow>
                      (if code = 200
                       then (True, r\<lparr>folder_registered := True\<rparr>,
                             fx @ [AddFolderPost req articles_path])
                       else (False, r, fx @ [AddFolderPost req articles_path])))))"

definition setup_rag_connection ::
  "fetch_config \<Rightarrow> rag_env \<Rightarrow> unicode_db \<Rightarrow> rag_integration
     \<Rightarrow> bool \<times> rag_integration \<times> effect list" where
  "setup_rag_connection cfg env db r =
     (let (detected, d, fx) = detect_rag_service env db (the_detector r) (rag_app_name cfg) 30
      in if detected
         then
           (let r1 = r\<lparr>the_detector := d, service_url := rag_service_url d, is_connected := True\<rparr>;
                (ok, r2, fx') = register_articles_folder cfg env r1
            in (True, r2, fx @ fx'))
         else (False, r\<lparr>the_detector := d\<rparr>, fx))"

section \<open>cli.py\<close>

text \<open>
  The \<^verbatim>\<open>fetch\<close> command: how it ends (\<open>Aborted\<close> is \<^verbatim>\<open>click.Abort\<close>), the disk it leaves
  and what it did outside the disk.
\<close>

datatype exit = Returned | Aborted

record run =
  exit_status :: exit
  final_disk :: disk
  effects :: "effect list"

definition main :: "fetch_config \<Rightarrow> 'd sys \<Rightarrow> 'd net \<Rightarrow> rag_env \<Rightarrow> disk \<Rightarrow> run" where
  "main cfg sys net env d =
     (case MarkdownWriter sys d (config_output_dir cfg) of
        Inl e \<Rightarrow> \<lparr>exit_status = Aborted, final_disk = d, effects = []\<rparr>
      | Inr writer \<Rightarrow>
          (let (rag_connected, rag, fx) =
                 setup_rag_connection cfg env (unicode sys) (RAGIntegration cfg env)
           in if \<not> rag_connected
              then \<lparr>exit_status = Returned, final_disk = d, effects = fx\<rparr>
              else
                (let (articles, fx') = fetch_articles cfg (unicode sys) net
                 in if articles = []
                    then \<lparr>exit_status = Returned, final_disk = d, effects = fx @ fx'\<rparr>
                    else
                      (let b = write_articles sys writer articles d
                       in \<lparr>exit_status = Returned, final_disk = on_disk b,
                           effects = fx @ fx'\<rparr>))))"

section \<open>The specification's wording of the slug\<close>

text \<open>
  The specification derives a slug from a title in five steps: lowercase; strip the
  characters outside word, space and hyphen; collapse each run of spaces and hyphens to a
  single hyphen; trim leading and trailing hyphens; truncate to 100 characters.
  \<open>collapse_runs\<close> drops a separator that another separator follows and turns the last
  one of a run into the hyphen.
\<close>

fun collapse_runs :: "(nat \<Rightarrow> bool) \<Rightarrow> nat \<Rightarrow> ustr \<Rightarrow> ustr" where
  "collapse_runs sep h [] = []"
| "collapse_runs sep h [c] = [if sep c then h else c]"
| "collapse_runs sep h (c # c' # cs) =
     (if sep c \<and> sep c' then collapse_runs sep h (c' # cs)
      else (if sep c then h else c) # collapse_runs sep h (c' # cs))"

definition slug_from_title :: "unicode_db \<Rightarrow> ustr \<Rightarrow> ustr" where
  "slug_from_title db t =
     take 100 (strip_where (\<lambda>c. c = hyphen)
       (collapse_runs (\<lambda>c. c = hyphen \<or> is_space db c) hyphen
         (filter (\<lambda>c. is_word db c \<or> is_space db c \<or> c = hyphen) (lower db t))))"

section \<open>Auxiliary notions for the statements\<close>






text \<open>
  The two marker files of an application under a data directory, as
  \<^verbatim>\<open>detect_rag_service\<close> builds them, and the condition that at no second of the wait
  window both are there.
\<close>

definition app_port_file :: "path \<Rightarrow> ustr \<Rightarrow> path" where
  "app_port_file data_dir app_name =
     truediv (truediv (truediv (truediv data_dir (asc ''apps'')) app_name) (asc ''data''))
       (asc ''app.port'')"

definition app_pid_file :: "path \<Rightarrow> ustr \<Rightarrow> path" where
  "app_pid_file data_dir app_name =
     truediv (truediv (truediv (truediv data_dir (asc ''apps'')) app_name) (asc ''data''))
       (asc ''app.pid'')"

definition markers_absent :: "rag_env \<Rightarrow> detector \<Rightarrow> ustr \<Rightarrow> int \<Rightarrow> bool" where
  "markers_absent env d app_name max_wait_time =
     (\<forall>data_dir t.
        client_load env (config_path d) = Inr data_dir \<and>
        time_now env \<le> t \<and> t < time_now env + max_wait_time \<longrightarrow>
        marker env t (app_port_file data_dir app_name) = None \<or>
        marker env t (app_pid_file data_dir app_name) = None)"

text \<open>The effects that fetch the feed or a page.\<close>

fun is_fetch :: "effect \<Rightarrow> bool" where
  "is_fetch (FeedFetch u) = True"
| "is_fetch (PageFetch u) = True"
| "is_fetch e = False"


section \<open>Sample inputs\<close>

text \<open>
  A small Unicode table: e-acute (233) decomposes into e and the combining acute accent
  (769), the combining diacritical marks are the marks, capital E-acute (201) lowers to
  e-acute, both are word characters, the no-break space (160) is a space.
\<close>

definition sample_db :: unicode_db where
  "sample_db =
     \<lparr>uni_nfd = (\<lambda>s. concat (map (\<lambda>c. if c = 233 then [101, 769] else [c]) s)),
      uni_Mn = (\<lambda>c. 768 \<le> c \<and> c \<le> 879),
      uni_lower = (\<lambda>s i. if s ! i = 201 then [233] else [s ! i]),
      uni_word = (\<lambda>c. c = 233 \<or> c = 201),
      uni_space = (\<lambda>c. c = 160)\<rparr>"

definition sample_article :: "ustr \<Rightarrow> ustr \<Rightarrow> nat article" where
  "sample_article t u =
     \<lparr>title = t, url = u, author = None, published = None, summary = None, content = None,
      categories = [], slug = None\<rparr>"

definition example_title :: ustr where
  "example_title = asc ''Hello, World! '' @ [8212] @ asc '' A Test''"

definition url_a :: ustr where
  "url_a = asc ''http://t.co/a''"

definition url_b :: ustr where
  "url_b = asc ''http://t.co/b''"

definition url_c :: ustr where
  "url_c = asc ''http://t.co/c''"

text \<open>
  A system where every file operation succeeds; one that refuses to open any document;
  one that refuses to open the ledger. The output directory \<^verbatim>\<open>articles\<close>, a disk whose
  ledger lists \<open>url_a\<close> and \<open>url_b\<close>, and the writer constructed on it.
\<close>

definition sample_sys :: "nat sys" where
  "sample_sys =
     \<lparr>unicode = sample_db,
      isoformat = (\<lambda>d. asc ''2024-05-01T10:00:00''),
      strftime_ymd = (\<lambda>d. asc ''2024-05-01''),
      strftime_long = (\<lambda>d. asc ''May 01, 2024''),
      now_iso = asc ''2024-05-02T08:30:00'',
      mkdir_ok = (\<lambda>p. True),
      doc_io = (\<lambda>p. IoOk),
      meta_io = (\<lambda>p. IoOk)\<rparr>"



definition articles_dir :: path where
  "articles_dir = Path False [asc ''articles'']"

definition ledger_path :: path where
  "ledger_path = Path False [asc ''articles'', asc ''.metadata.json'']"

definition sample_disk :: disk where
  "sample_disk =
     \<lparr>docs = Map.empty,
      meta = [ledger_path \<mapsto>
                Ledger \<lparr>last_updated = asc ''2024-05-01T09:00:00'',
                        processed_urls = {url_a, url_b}\<rparr>]\<rparr>"


text \<open>
  A feed of three entries with the urls \<open>url_a\<close>, \<open>url_b\<close>, \<open>url_c\<close>; a network on which
  the feed parses and every page request raises, and one on which the feed itself cannot
  be fetched; a configuration that takes two entries.
\<close>

definition sample_entry :: "ustr \<Rightarrow> ustr \<Rightarrow> nat entry" where
  "sample_entry t l =
     \<lparr>entry_title = Some t, entry_link = Some l, entry_published_parsed = None,
      entry_published = None, entry_tags = None, entry_author = None, entry_summary = None\<rparr>"

definition sample_feed :: "nat feed" where
  "sample_feed =
     \<lparr>bozo = False,
      entries = [sample_entry (asc ''One'') url_a, sample_entry (asc ''Two'') url_b,
                 sample_entry (asc ''Three'') url_c]\<rparr>"

definition sample_net :: "nat net" where
  "sample_net =
     \<lparr>feedparser_parse = (\<lambda>u. Inr sample_feed),
      date_parse = (\<lambda>s. None),
      soup_text = (\<lambda>s. s),
      http_url = Some,
      session_get = (\<lambda>u. Inl OSError),
      newspaper_parse = (\<lambda>u html. Inl ParseError)\<rparr>"


definition sample_config :: fetch_config where
  "sample_config =
     \<lparr>rss_url = asc ''https://rss.tempo.co/'', config_output_dir = articles_dir,
      max_articles = 2, fetch_full_content = True,
      rag_app_name = asc ''com.github.openmined.local-rag'', syftbox_config_path = None\<rparr>"

text \<open>
  An environment where the SyftBox configuration and the application folder exist, the
  indexing service would accept a registration, and no marker file ever appears.
\<close>

definition quiet_env :: rag_env where
  "quiet_env =
     \<lparr>home_config = Path True [asc ''home'', asc ''.syftbox'', asc ''config.json''],
      path_exists = (\<lambda>p. True),
      client_load = (\<lambda>p. Inr (Path True [asc ''home'', asc ''SyftBox''])),
      marker = (\<lambda>t p. None),
      time_now = 1000,
      absolute = (\<lambda>p. asc ''/srv/articles''),
      get_watched_folders = (\<lambda>u. Inr (200, Some [])),
      post_add_folder = (\<lambda>u f. Inr 200)\<rparr>"

text \<open>The same environment with both marker files in place from the start.\<close>

definition live_env :: rag_env where
  "live_env = quiet_env\<lparr>marker := (\<lambda>t p. Some (Inr (asc ''8080'')))\<rparr>"

section \<open>Strings: lemmas\<close>

lemma is_ascii_Nil: "is_ascii []"
  by (simp add: is_ascii_def)

lemma is_ascii_set: "is_ascii s \<longleftrightarrow> (\<forall>c\<in>set s. c < 128)"
  by (simp add: is_ascii_def list_all_iff)

lemma is_ascii_encode: "is_ascii (encode_ascii_replace s)"
  by (induction s) (auto simp: is_ascii_def encode_ascii_replace_def)

lemma encode_ascii_id: "is_ascii s \<Longrightarrow> encode_ascii_replace s = s"
  by (induction s) (auto simp: is_ascii_def encode_ascii_replace_def)

lemma str_replace_absent: "u \<notin> set s \<Longrightarrow> str_replace u r s = s"
  by (induction s) (auto simp: str_replace_def)

lemma set_strip_where: "set (strip_where p s) \<subseteq> set s"
proof -
  have "set (strip_where p s) = set (dropWhile p (rev (dropWhile p s)))"
    by (simp add: strip_where_def)
  also have "\<dots> \<subseteq> set (rev (dropWhile p s))"
    by (rule set_dropWhileD [THEN subsetI])
  also have "\<dots> \<subseteq> set s"
    using set_dropWhileD [of _ p s] by auto
  finally show ?thesis .
qed

lemma set_sub_runs: "set (sub_runs_from p r b s) \<subseteq> set r \<union> {c \<in> set s. \<not> p c}"
  by (induction s arbitrary: b) auto

lemma set_lower_ascii:
  "is_ascii s \<Longrightarrow> c \<in> set (lower db s) \<Longrightarrow> c < 128 \<and> \<not> ascii_upper c"
  by (auto simp: lower_def lower_at_def is_ascii_def list_all_length ascii_upper_def Let_def
      split: if_splits)

section \<open>The text normalizer\<close>

lemma replacements_absent:
  "is_ascii s \<Longrightarrow> \<forall>(u, r)\<in>set rs. 128 \<le> u \<Longrightarrow>
   foldl (\<lambda>s (u, r). str_replace u r s) s rs = s"
proof (induction rs arbitrary: s)
  case Nil
  then show ?case by simp
next
  case (Cons p rs)
  obtain u r where p: "p = (u, r)" by (cases p)
  from Cons.prems p have "u \<notin> set s" by (auto simp: is_ascii_set)
  then have "str_replace u r s = s" by (rule str_replace_absent)
  with Cons p show ?case by simp
qed

lemma replacements_high: "\<forall>(u, r)\<in>set replacements. 128 \<le> u"
  by (simp add: replacements_def)

lemma filter_Mn_ascii: "is_ascii s \<Longrightarrow> filter (\<lambda>c. \<not> is_Mn db c) s = s"
  by (induction s) (auto simp: is_ascii_def is_Mn_def)

lemma normalize_ascii_id: "is_ascii s \<Longrightarrow> normalize_text db s = s"
  by (simp add: normalize_text_def nfd_def filter_Mn_ascii
      replacements_absent [OF _ replacements_high] encode_ascii_id Let_def)

lemma is_ascii_normalize: "is_ascii (normalize_text db s)"
  by (simp add: normalize_text_def is_ascii_encode Let_def is_ascii_Nil)

text \<open>
  C4. The text normalizer is idempotent: normalizing a normalized string changes
  nothing, for every string and whatever the Unicode tables say above code point 127.
  The output of the normalizer is 7-bit, and on a 7-bit string the decomposition, the
  removal of combining marks, the substitution table and the fallback marker are all the
  identity.
\<close>

theorem normalize_text_idempotent:
  "normalize_text db (normalize_text db s) = normalize_text db s"
  by (rule normalize_ascii_id) (rule is_ascii_normalize)

text \<open>
  At \<^verbatim>\<open>caf\<close>, e-acute, em dash, euro sign: the accent is stripped, the dash becomes two
  hyphens, the euro sign becomes the fallback marker, and a second pass changes nothing.
\<close>

theorem normalize_text_idempotent_witness:
  "normalize_text sample_db [99, 97, 102, 233, 8212, 8364] = asc ''cafe--?'' \<and>
   normalize_text sample_db (normalize_text sample_db [99, 97, 102, 233, 8212, 8364])
     = asc ''cafe--?''"
proof -
  have v: "normalize_text sample_db [99, 97, 102, 233, 8212, 8364] = asc ''cafe--?''"
    by (simp add: normalize_text_def nfd_def is_ascii_def sample_db_def is_Mn_def
        replacements_def str_replace_def encode_ascii_replace_def asc_def Let_def)
  show ?thesis
    using normalize_text_idempotent [of sample_db "[99, 97, 102, 233, 8212, 8364]"]
    by (simp add: v)
qed

section \<open>The slug\<close>

lemma sub_runs_collapse:
  "sub_runs_from p [h] False s = collapse_runs p h s \<and>
   (\<forall>c. p c \<longrightarrow> h # sub_runs_from p [h] True s = collapse_runs p h (c # s))"
proof (induction s)
  case Nil
  show ?case by simp
next
  case (Cons x xs)
  show ?case
  proof (cases xs)
    case Nil
    then show ?thesis by simp
  next
    case (Cons y ys)
    with Cons.IH show ?thesis by auto
  qed
qed

lemma slug_refines:
  "\<not> truthy (slug a) \<Longrightarrow> generate_slug db a = slug_from_title db (title a)"
  by (simp add: generate_slug_def slug_from_title_def re_sub_delete_def re_sub_runs_def
      sub_runs_collapse Let_def)

lemma slug_length: "\<not> truthy (slug a) \<Longrightarrow> length (generate_slug db a) \<le> 100"
  by (simp add: generate_slug_def Let_def)

lemma slug_chars:
  assumes "\<not> truthy (slug a)" and "c \<in> set (generate_slug db a)"
  shows "c = hyphen \<or> (c \<in> set (lower db (title a)) \<and> is_word db c)"
proof -
  let ?keep = "\<lambda>c. is_word db c \<or> is_space db c \<or> c = hyphen"
  let ?sep = "\<lambda>c. c = hyphen \<or> is_space db c"
  let ?s2 = "filter ?keep (lower db (title a))"
  let ?s3 = "sub_runs_from ?sep [hyphen] False ?s2"
  from assms have "c \<in> set (take 100 (strip_where (\<lambda>c. c = hyphen) ?s3))"
    by (simp add: generate_slug_def re_sub_delete_def re_sub_runs_def Let_def)
  then have "c \<in> set (strip_where (\<lambda>c. c = hyphen) ?s3)" by (rule in_set_takeD)
  then have "c \<in> set ?s3" using set_strip_where by blast
  then have "c = hyphen \<or> (c \<in> set ?s2 \<and> \<not> ?sep c)"
    using set_sub_runs [of ?sep "[hyphen]" False ?s2] by auto
  then show ?thesis by auto
qed

lemma slug_chars_ascii:
  assumes "\<not> truthy (slug a)" and "is_ascii (title a)" and "c \<in> set (generate_slug db a)"
  shows "ascii_lower_alnum c \<or> c = 95 \<or> c = hyphen"
proof -
  from slug_chars [OF assms(1) assms(3)]
  show ?thesis
  proof
    assume "c = hyphen"
    then show ?thesis by simp
  next
    assume h: "c \<in> set (lower db (title a)) \<and> is_word db c"
    with set_lower_ascii [OF assms(2)] have "c < 128 \<and> \<not> ascii_upper c" by blast
    with h show ?thesis by (auto simp: is_word_def ascii_word_def)
  qed
qed

lemmas slug_eval =
  generate_slug_def Let_def lower_def lower_at_def asc_def upt_rec [of _ "numeral _"]
  upt_rec [of 0] ascii_upper_def re_sub_delete_def re_sub_runs_def is_word_def is_space_def
  ascii_word_def ascii_space_def ascii_lower_alnum_def hyphen_def strip_where_def
  truthy_def

lemma slug_example:
  assumes "uni_lower db example_title 14 = [8212]"
    and "\<not> uni_word db 8212" and "\<not> uni_space db 8212"
    and "\<not> truthy (slug a)" and "title a = example_title"
  shows "generate_slug db a = asc ''hello-world-a-test''"
proof -
  have idx: "Suc (Suc (Suc (Suc (Suc (Suc (Suc (Suc (Suc (Suc (Suc (Suc (Suc (Suc 0)))))))))))))
             = (14::nat)"
    by simp
  show ?thesis
    using assms by (simp add: slug_eval example_title_def idx)
qed

text \<open>
  C3, as amended. For every article whose slug is absent or empty, the slug is derived
  from the title alone, by the five steps of the specification: lowercase, strip the
  characters outside word, space and hyphen, collapse each run of spaces and hyphens to
  one hyphen, trim leading and trailing hyphens, truncate to 100 characters. The result
  has at most 100 characters, and each is a hyphen or a word character of the pattern
  \<^verbatim>\<open>\w\<close>: a letter or digit of any script, or the underscore. For a 7-bit title the
  result consists of lowercase letters, digits, underscores and hyphens. The title
  \<^verbatim>\<open>Hello, World! \<close>, em dash, \<^verbatim>\<open> A Test\<close> yields \<^verbatim>\<open>hello-world-a-test\<close>, the em dash
  being neither cased, nor a word character, nor a space.
\<close>

theorem generate_slug_from_title:
  assumes "\<not> truthy (slug a)"
  shows "generate_slug db a = slug_from_title db (title a) \<and>
         length (generate_slug db a) \<le> 100 \<and>
         (\<forall>c\<in>set (generate_slug db a). is_word db c \<or> c = hyphen) \<and>
         (is_ascii (title a) \<longrightarrow>
            (\<forall>c\<in>set (generate_slug db a). ascii_lower_alnum c \<or> c = 95 \<or> c = hyphen)) \<and>
         (title a = example_title \<and> uni_lower db example_title 14 = [8212] \<and>
          \<not> uni_word db 8212 \<and> \<not> uni_space db 8212 \<longrightarrow>
            generate_slug db a = asc ''hello-world-a-test'')"
proof (intro conjI ballI impI)
  show "generate_slug db a = slug_from_title db (title a)"
    using assms by (rule slug_refines)
  show "length (generate_slug db a) \<le> 100"
    using assms by (rule slug_length)
  show "is_word db c \<or> c = hyphen" if "c \<in> set (generate_slug db a)" for c
    using slug_chars [OF assms that] by blast
  show "ascii_lower_alnum c \<or> c = 95 \<or> c = hyphen"
    if "is_ascii (title a)" and "c \<in> set (generate_slug db a)" for c
    using slug_chars_ascii [OF assms that] .
  show "generate_slug db a = asc ''hello-world-a-test''"
    if "title a = example_title \<and> uni_lower db example_title 14 = [8212] \<and>
        \<not> uni_word db 8212 \<and> \<not> uni_space db 8212"
    using that assms by (intro slug_example) simp_all
qed

theorem generate_slug_from_title_witness:
  "\<not> truthy (slug (sample_article example_title (asc ''http://t.co/a''))) \<and>
   generate_slug sample_db (sample_article example_title (asc ''http://t.co/a''))
     = asc ''hello-world-a-test'' \<and>
   slug_from_title sample_db example_title = asc ''hello-world-a-test''"
proof -
  let ?a = "sample_article example_title (asc ''http://t.co/a'')"
  have s: "\<not> truthy (slug ?a)" and t: "title ?a = example_title"
    by (simp_all add: sample_article_def truthy_def)
  have l: "uni_lower sample_db example_title 14 = [8212]"
    by (simp add: sample_db_def example_title_def asc_def)
  have w: "\<not> uni_word sample_db 8212" "\<not> uni_space sample_db 8212"
    by (simp_all add: sample_db_def)
  note th = generate_slug_from_title [OF s, of sample_db]
  from th have "generate_slug sample_db ?a = slug_from_title sample_db (title ?a)"
    by (rule conjunct1)
  with t have e1: "generate_slug sample_db ?a = slug_from_title sample_db example_title"
    by (simp only:)
  from th t l w have e2: "generate_slug sample_db ?a = asc ''hello-world-a-test''"
    by blast
  from e1 e2 have "slug_from_title sample_db example_title = asc ''hello-world-a-test''"
    by (simp only:)
  with s e2 show ?thesis by blast
qed

text \<open>
  The claim as the specification states it fails on the underscore, which \<^verbatim>\<open>\w\<close>
  matches: the title \<^verbatim>\<open>a_b\<close> keeps it, so the slug has punctuation other than hyphens.
\<close>

theorem generate_slug_keeps_underscore:
  "slug (sample_article (asc ''a_b'') (asc ''http://t.co/a'')) = None \<and>
   generate_slug sample_db (sample_article (asc ''a_b'') (asc ''http://t.co/a'')) = asc ''a_b'' \<and>
   \<not> (\<forall>c\<in>set (generate_slug sample_db (sample_article (asc ''a_b'') (asc ''http://t.co/a''))).
        ascii_lower_alnum c \<or> c = hyphen)"
proof -
  have v: "generate_slug sample_db (sample_article (asc ''a_b'') (asc ''http://t.co/a''))
           = asc ''a_b''"
    by (simp add: slug_eval sample_article_def)
  show ?thesis
    unfolding v by (simp add: sample_article_def asc_def ascii_lower_alnum_def hyphen_def)
qed

text \<open>
  C10, as amended. If the slug field of an article is set to a non-empty string,
  \<^verbatim>\<open>generate_slug\<close> returns it as it is, with no lowercasing, stripping, collapsing,
  trimming or truncation, and the file path is the output directory joined with that
  string followed by \<^verbatim>\<open>.md\<close>.
\<close>

theorem preset_slug_verbatim:
  assumes "slug a = Some s" and "s \<noteq> []"
  shows "generate_slug db a = s \<and>
         get_file_path db a base_dir = truediv base_dir (s @ asc ''.md'')"
  using assms by (simp add: generate_slug_def get_file_path_def truthy_def)

theorem preset_slug_verbatim_witness:
  "generate_slug sample_db
     ((sample_article (asc ''Hello'') (asc ''http://t.co/a''))\<lparr>slug := Some (asc ''My  Slug!_'')\<rparr>)
     = asc ''My  Slug!_'' \<and>
   get_file_path sample_db
     ((sample_article (asc ''Hello'') (asc ''http://t.co/a''))\<lparr>slug := Some (asc ''My  Slug!_'')\<rparr>)
     (PurePath (asc ''articles''))
     = Path False [asc ''articles'', asc ''My  Slug!_.md'']"
proof -
  let ?a = "(sample_article (asc ''Hello'') (asc ''http://t.co/a''))\<lparr>slug := Some (asc ''My  Slug!_'')\<rparr>"
  have s: "slug ?a = Some (asc ''My  Slug!_'')" by simp
  have n: "asc ''My  Slug!_'' \<noteq> []" by (simp add: asc_def)
  have p: "truediv (PurePath (asc ''articles'')) (asc ''My  Slug!_'' @ asc ''.md'')
           = Path False [asc ''articles'', asc ''My  Slug!_.md'']"
    by (simp add: truediv_def PurePath_def asc_def Let_def)
  show ?thesis
    using preset_slug_verbatim [OF s n, of sample_db "PurePath (asc ''articles'')"] p by simp
qed

text \<open>
  A slug that is set to the empty string is not returned: the test \<^verbatim>\<open>if self.slug\<close>
  takes it for an absent one and the slug comes from the title.
\<close>

theorem empty_slug_not_verbatim:
  "slug ((sample_article (asc ''Hello'') (asc ''http://t.co/a''))\<lparr>slug := Some []\<rparr>) = Some [] \<and>
   generate_slug sample_db ((sample_article (asc ''Hello'') (asc ''http://t.co/a''))\<lparr>slug := Some []\<rparr>)
     = asc ''hello'' \<and>
   generate_slug sample_db ((sample_article (asc ''Hello'') (asc ''http://t.co/a''))\<lparr>slug := Some []\<rparr>)
     \<noteq> []"
  by (simp add: slug_eval sample_article_def)

section \<open>The document writer\<close>





























section \<open>The ledger\<close>





lemma save_metadata_other:
  "p \<noteq> metadata_file w \<Longrightarrow> meta (save_metadata sys w new d) p = meta d p"
  by (simp add: save_metadata_def split: io_outcome.splits)









section \<open>Duplicates inside one batch\<close>



section \<open>The feed retriever\<close>


lemma generate_slug_content [simp]:
  "generate_slug db (a\<lparr>content := c\<rparr>) = generate_slug db a"
  by (simp add: generate_slug_def)





lemma parse_rss_entry_fresh:
  "parse_rss_entry db net e = Some a \<Longrightarrow> content a = None \<and> slug a = None"
  by (auto simp: parse_rss_entry_def Let_def split: option.splits)











section \<open>The indexing-service connector\<close>

lemma wait_for_service_absent:
  "(\<And>t. now \<le> t \<Longrightarrow> t < start_time + max_wait_time \<Longrightarrow>
        marker env t pf = None \<or> marker env t qf = None) \<Longrightarrow>
   wait_for_service env db pf qf start_time max_wait_time now d fx
     = (False, d, fx @ replicate (nat (start_time + max_wait_time - now)) PollSleep)"
proof (induction env db pf qf start_time max_wait_time now d fx rule: wait_for_service.induct)
  case (1 env db pf qf start_time max_wait_time now d fx)
  show ?case
  proof (cases "now - start_time < max_wait_time")
    case False
    then have "nat (start_time + max_wait_time - now) = 0" by simp
    with False show ?thesis by (subst wait_for_service.simps) simp
  next
    case True
    then have lt: "now < start_time + max_wait_time" by simp
    from "1.prems" [of now] lt
    have ab: "\<not> (marker env now pf \<noteq> None \<and> marker env now qf \<noteq> None)" by auto
    have ih: "wait_for_service env db pf qf start_time max_wait_time (now + 1) d (fx @ [PollSleep])
          = (False, d, (fx @ [PollSleep])
               @ replicate (nat (start_time + max_wait_time - (now + 1))) PollSleep)"
      using True ab "1.prems" by (intro "1.IH") auto
    have k: "replicate (nat (start_time + max_wait_time - now)) PollSleep
             = PollSleep # replicate (nat (start_time + max_wait_time - (now + 1))) PollSleep"
    proof -
      have "nat (start_time + max_wait_time - now)
            = Suc (nat (start_time + max_wait_time - (now + 1)))"
        using lt by simp
      then show ?thesis by (simp only: replicate_Suc)
    qed
    have "wait_for_service env db pf qf start_time max_wait_time now d fx
          = wait_for_service env db pf qf start_time max_wait_time (now + 1) d (fx @ [PollSleep])"
      using True ab by (subst wait_for_service.simps) (simp only: if_True if_False)
    also note ih
    finally show ?thesis by (simp only: k append_assoc append_Cons append_Nil)
  qed
qed

lemma wait_for_service_effects:
  "set (snd (snd (wait_for_service env db pf qf start_time max_wait_time now d fx)))
     \<subseteq> set fx \<union> {PollSleep}"
proof (induction env db pf qf start_time max_wait_time now d fx rule: wait_for_service.induct)
  case (1 env db pf qf start_time max_wait_time now d fx)
  show ?case
  proof (cases "now - start_time < max_wait_time")
    case False
    then show ?thesis by (subst wait_for_service.simps) auto
  next
    case True
    show ?thesis
    proof (cases "marker env now pf \<noteq> None \<and> marker env now qf \<noteq> None")
      case p: True
      with True show ?thesis
        by (subst wait_for_service.simps) (auto simp: Let_def split: sum.splits)
    next
      case a: False
      have "wait_for_service env db pf qf start_time max_wait_time now d fx
          = wait_for_service env db pf qf start_time max_wait_time (now + 1) d (fx @ [PollSleep])"
        using True a by (subst wait_for_service.simps) (simp only: if_True if_False)
      with "1.IH" [OF True a] show ?thesis by auto
    qed
  qed
qed

lemma detect_absent:
  assumes "markers_absent env d app_name max_wait_time"
  shows "fst (detect_rag_service env db d app_name max_wait_time) = False \<and>
         fst (snd (detect_rag_service env db d app_name max_wait_time)) = d \<and>
         set (snd (snd (detect_rag_service env db d app_name max_wait_time))) \<subseteq> {PollSleep}"
proof (cases "path_exists env (config_path d)")
  case False
  then show ?thesis by (simp add: detect_rag_service_def)
next
  case True
  show ?thesis
  proof (cases "client_load env (config_path d)")
    case (Inl e)
    with True show ?thesis by (simp add: detect_rag_service_def)
  next
    case (Inr data_dir)
    let ?folder = "truediv (truediv data_dir (asc ''apps'')) app_name"
    show ?thesis
    proof (cases "path_exists env ?folder")
      case False
      with True Inr show ?thesis by (simp add: detect_rag_service_def Let_def)
    next
      case f: True
      have "wait_for_service env db (app_port_file data_dir app_name) (app_pid_file data_dir app_name)
              (time_now env) max_wait_time (time_now env) d []
            = (False, d, [] @ replicate (nat (time_now env + max_wait_time - time_now env)) PollSleep)"
        using assms Inr by (intro wait_for_service_absent) (simp add: markers_absent_def)
      with True Inr f show ?thesis
        by (auto simp: detect_rag_service_def Let_def app_port_file_def app_pid_file_def)
    qed
  qed
qed

lemma detect_effects:
  "set (snd (snd (detect_rag_service env db d app_name max_wait_time))) \<subseteq> {PollSleep}"
  using wait_for_service_effects [of env db _ _ "time_now env" max_wait_time "time_now env" d "[]"]
  by (auto simp: detect_rag_service_def Let_def split: sum.splits)

lemma is_folder_registered_effects:
  "\<forall>e\<in>set (snd (is_folder_registered env r p)). \<not> is_fetch e"
  by (simp add: is_folder_registered_def Let_def)

lemma register_effects:
  "\<forall>e\<in>set (snd (snd (register_articles_folder cfg env r))). \<not> is_fetch e"
  using is_folder_registered_effects [of env r "absolute env (config_output_dir cfg)"]
  by (auto simp: register_articles_folder_def Let_def split: prod.splits sum.splits)

lemma setup_effects:
  "\<forall>e\<in>set (snd (snd (setup_rag_connection cfg env db r))). \<not> is_fetch e"
proof -
  obtain b d fx where dt: "detect_rag_service env db (the_detector r) (rag_app_name cfg) 30 = (b, d, fx)"
    by (cases "detect_rag_service env db (the_detector r) (rag_app_name cfg) 30") auto
  from detect_effects [of env db "the_detector r" "rag_app_name cfg" 30] dt
  have fx: "\<forall>e\<in>set fx. \<not> is_fetch e" by auto
  show ?thesis
    using dt fx register_effects [of cfg env "r\<lparr>the_detector := d, service_url := rag_service_url d, is_connected := True\<rparr>"]
    by (auto simp: setup_rag_connection_def Let_def split: prod.splits)
qed

lemma detect_absent_sleeps:
  assumes "markers_absent env d app_name max_wait_time"
    and "path_exists env (config_path d)"
    and "client_load env (config_path d) = Inr data_dir"
    and "path_exists env (truediv (truediv data_dir (asc ''apps'')) app_name)"
  shows "snd (snd (detect_rag_service env db d app_name max_wait_time))
         = replicate (nat max_wait_time) PollSleep"
proof -
  have "wait_for_service env db (app_port_file data_dir app_name) (app_pid_file data_dir app_name)
          (time_now env) max_wait_time (time_now env) d []
        = (False, d, [] @ replicate (nat (time_now env + max_wait_time - time_now env)) PollSleep)"
    using assms(1,3) by (intro wait_for_service_absent) (simp add: markers_absent_def)
  with assms(2-4) show ?thesis
    by (simp add: detect_rag_service_def Let_def app_port_file_def app_pid_file_def)
qed

lemma quiet_absent: "markers_absent quiet_env d app_name max_wait_time"
  by (simp add: markers_absent_def quiet_env_def)

lemma quiet_setup:
  "setup_rag_connection cfg quiet_env db r = (False, r, replicate 30 PollSleep)"
proof -
  obtain b d' fx where dt:
    "detect_rag_service quiet_env db (the_detector r) (rag_app_name cfg) 30 = (b, d', fx)"
    by (cases "detect_rag_service quiet_env db (the_detector r) (rag_app_name cfg) 30") auto
  from detect_absent [OF quiet_absent, where d = "the_detector r" and app_name = "rag_app_name cfg"
      and max_wait_time = 30 and db = db] dt
  have b: "b = False" and d': "d' = the_detector r" by simp_all
  have "snd (snd (detect_rag_service quiet_env db (the_detector r) (rag_app_name cfg) 30))
        = replicate (nat 30) PollSleep"
    by (rule detect_absent_sleeps [OF quiet_absent, where data_dir = "Path True [asc ''home'', asc ''SyftBox'']"])
       (simp_all add: quiet_env_def)
  with dt have fx: "fx = replicate 30 PollSleep" by simp
  show ?thesis
    using dt b d' fx by (simp add: setup_rag_connection_def)
qed

lemma feed_fetch_recorded:
  "FeedFetch (rss_url cfg) \<in> set (snd (fetch_articles cfg db net))"
  by (auto simp: fetch_articles_def fetch_rss_feed_def Let_def split: sum.splits prod.splits)

lemma live_setup: "fst (setup_rag_connection cfg live_env db r)"
proof -
  have "fst (detect_rag_service live_env db (the_detector r) (rag_app_name cfg) 30)"
    by (simp add: detect_rag_service_def Let_def live_env_def quiet_env_def)
       (subst wait_for_service.simps, simp add: Let_def)
  then show ?thesis
    by (auto simp: setup_rag_connection_def Let_def split: prod.splits)
qed

lemma detected_fetches_feed:
  assumes "fst (setup_rag_connection cfg env (unicode sys) (RAGIntegration cfg env))"
    and "mkdir_ok sys (config_output_dir cfg)"
  shows "FeedFetch (rss_url cfg) \<in> set (effects (main cfg sys net env d))"
  using assms feed_fetch_recorded [of cfg "unicode sys" net]
  by (auto simp: main_def MarkdownWriter_def Let_def split: prod.splits)




section \<open>The top-level run\<close>

text \<open>
  C6. If the detection of the indexing service fails, that is \<^verbatim>\<open>setup_rag_connection\<close>
  returns false, the run fetches neither the feed nor a page and leaves the disk as it
  was: no document and no ledger is written. It ends without error (the writer having been
  constructed), having done nothing but the setup. Conversely a run that fetches anything
  or changes the disk is one in which the service was detected.
\<close>

theorem undetected_service_skips_workflow:
  "(\<not> fst (setup_rag_connection cfg env (unicode sys) (RAGIntegration cfg env)) \<longrightarrow>
      final_disk (main cfg sys net env d) = d \<and>
      (\<forall>e\<in>set (effects (main cfg sys net env d)). \<not> is_fetch e) \<and>
      (mkdir_ok sys (config_output_dir cfg) \<longrightarrow>
         exit_status (main cfg sys net env d) = Returned \<and>
         effects (main cfg sys net env d)
           = snd (snd (setup_rag_connection cfg env (unicode sys) (RAGIntegration cfg env))))) \<and>
   (final_disk (main cfg sys net env d) \<noteq> d \<or>
    (\<exists>e\<in>set (effects (main cfg sys net env d)). is_fetch e) \<longrightarrow>
      fst (setup_rag_connection cfg env (unicode sys) (RAGIntegration cfg env)) \<and>
      mkdir_ok sys (config_output_dir cfg))"
proof -
  let ?s = "setup_rag_connection cfg env (unicode sys) (RAGIntegration cfg env)"
  obtain b r fx where s: "?s = (b, r, fx)" by (cases ?s) auto
  from setup_effects [of cfg env "unicode sys" "RAGIntegration cfg env"] s
  have fx: "\<forall>e\<in>set fx. \<not> is_fetch e" by simp
  have ab: "final_disk (main cfg sys net env d) = d \<and> effects (main cfg sys net env d) = []"
    if "\<not> mkdir_ok sys (config_output_dir cfg)"
    using that by (simp add: main_def MarkdownWriter_def)
  have un: "final_disk (main cfg sys net env d) = d \<and> effects (main cfg sys net env d) = fx \<and>
            exit_status (main cfg sys net env d) = Returned"
    if "mkdir_ok sys (config_output_dir cfg)" and "\<not> b"
    using that s by (simp add: main_def MarkdownWriter_def)
  show ?thesis
  proof (cases "mkdir_ok sys (config_output_dir cfg)")
    case False
    from ab [OF False] False show ?thesis by simp
  next
    case True
    show ?thesis
    proof (cases b)
      case False
      from un [OF True False] fx s False True show ?thesis by simp
    next
      case b: True
      with s True show ?thesis by simp
    qed
  qed
qed


text \<open>
  With no marker file the run returns after thirty polls and leaves the disk alone; with
  the marker files in place the service is detected and the feed is fetched.
\<close>

theorem undetected_service_skips_workflow_witness:
  "\<not> fst (setup_rag_connection sample_config quiet_env (unicode sample_sys)
          (RAGIntegration sample_config quiet_env)) \<and>
   exit_status (main sample_config sample_sys sample_net quiet_env sample_disk) = Returned \<and>
   final_disk (main sample_config sample_sys sample_net quiet_env sample_disk) = sample_disk \<and>
   effects (main sample_config sample_sys sample_net quiet_env sample_disk)
     = replicate 30 PollSleep \<and>
   FeedFetch (rss_url sample_config)
     \<in> set (effects (main sample_config sample_sys sample_net live_env sample_disk)) \<and>
   fst (setup_rag_connection sample_config live_env (unicode sample_sys)
          (RAGIntegration sample_config live_env))"
proof -
  let ?q = "setup_rag_connection sample_config quiet_env (unicode sample_sys)
              (RAGIntegration sample_config quiet_env)"
  have q: "?q = (False, RAGIntegration sample_config quiet_env, replicate 30 PollSleep)"
    by (rule quiet_setup)
  have m: "mkdir_ok sample_sys (config_output_dir sample_config)"
    by (simp add: sample_sys_def)
  from q have nq: "\<not> fst ?q" by simp
  from undetected_service_skips_workflow
    [where cfg = sample_config and env = quiet_env and sys = sample_sys and net = sample_net
       and d = sample_disk] nq m
  have a: "final_disk (main sample_config sample_sys sample_net quiet_env sample_disk) = sample_disk"
    and b: "exit_status (main sample_config sample_sys sample_net quiet_env sample_disk) = Returned"
    and c: "effects (main sample_config sample_sys sample_net quiet_env sample_disk) = snd (snd ?q)"
    by blast+
  from c q have c': "effects (main sample_config sample_sys sample_net quiet_env sample_disk)
                     = replicate 30 PollSleep"
    by simp
  have f: "FeedFetch (rss_url sample_config)
           \<in> set (effects (main sample_config sample_sys sample_net live_env sample_disk))"
    using live_setup m by (rule detected_fetches_feed)
  then have "\<exists>e\<in>set (effects (main sample_config sample_sys sample_net live_env sample_disk)).
               is_fetch e"
    by (rule bexI [rotated]) simp
  with undetected_service_skips_workflow
    [where cfg = sample_config and env = live_env and sys = sample_sys and net = sample_net
       and d = sample_disk]
  have l: "fst (setup_rag_connection sample_config live_env (unicode sample_sys)
                 (RAGIntegration sample_config live_env))"
    by blast
  from nq b a c' f l show ?thesis by blast
qed

end
